theory Spec2Isabelle
  imports Main
begin

section \<open>Data model of \<open>packages/genry/src/bin.ts\<close>\<close>

text \<open>
  A shallow embedding of the command line entry point of genry. The third-party
  libraries the script calls (glob, prompts, the dynamic \<open>import()\<close>, \<open>path.join\<close>) are
  parameters of the model, collected in the record \<open>env\<close>. What the script does to the
  outside world is written into an explicit state: the working directory of the process
  and the sequence of observable events (spinner texts, editor notifications, imports,
  \<open>console.error\<close>, the prompt, calls of \<open>generate\<close>) in the order in which they happen.
  A rejected promise and a thrown exception are values \<open>Inl e\<close>.
\<close>

datatype error = Error string

text \<open>The first argument of \<open>generate\<close> (the object literal built in \<open>start\<close>).\<close>

record run_context =
  ctx_path :: string
  ctx_packagePath :: string
  ctx_ipcServer :: "string option"
  ctx_terminalId :: "string option"

typedecl register_options

text \<open>The field \<open>config\<close> of class \<open>Genry\<close>.\<close>

record config =
  cfg_include :: "string option"
  cfg_exclude :: "string option"
  cfg_registerOptions :: "register_options option"

text \<open>
  \<open>Template\<close> (imported from \<open>./template\<close>; the fields are the ones \<open>bin.ts\<close> reads).
  \<open>generate\<close> returns a promise: \<open>Inl e\<close> is a rejection (or a synchronous throw, which
  \<open>await\<close> in an async function treats alike), \<open>Inr ()\<close> its fulfilment.
\<close>

record template =
  name :: string
  description :: "string option"
  generate :: "run_context \<Rightarrow> config \<Rightarrow> error + unit"

text \<open>
  The value \<open>f.default\<close> of an imported module, typed \<open>Template | Template[]\<close> in the
  source, and what the array handed to \<open>filter\<close> holds at run time: such a value, or
  \<open>undefined\<close> (a module with no default export), or \<open>null\<close>.
\<close>

datatype export = Single template | Many "template list"

datatype settled = Undefined | Null | Value export

datatype 'a promise = Resolved 'a | Rejected error

text \<open>
  What evaluating \<open>import(p)\<close> does: \<open>Throws e\<close> is an exception thrown synchronously
  while the call expression is evaluated (the only thing the \<open>try\<close> block in
  \<open>loadTemplates\<close> can see), \<open>Rejects e\<close> is a promise that rejects (a module that cannot
  be found, compiled or that throws while it is evaluated: \<open>import()\<close> reports every such
  failure through the promise it returns), \<open>Fulfils d\<close> is a module whose \<open>default\<close> is \<open>d\<close>.
\<close>

datatype import_outcome = Throws error | Rejects error | Fulfils settled

record glob_options =
  dot :: bool
  nodir :: bool
  glob_cwd :: string
  ignore :: "string option"

record choice =
  title :: string
  choice_description :: "string option"
  choice_value :: template

record vscode_extension =
  serverId :: "string option"
  terminalId :: "string option"

datatype event =
    SpinnerStart string
  | SpinnerWarn string
  | SpinnerText string
  | SpinnerSucceed string
  | VscodeEmit string
  | Register
  | Chdir string
  | Import string
  | ConsoleError error
  | Prompts "choice list"
  | Generate template run_context config

record state =
  process_cwd :: string
  trace :: "event list"

record env =
  glob :: "string \<Rightarrow> glob_options \<Rightarrow> error + string list"
  path_join :: "string \<Rightarrow> string \<Rightarrow> string"
  dynamic_import :: "string \<Rightarrow> import_outcome"
  prompts :: "choice list \<Rightarrow> template option"

text \<open>The fields of class \<open>Genry\<close> (the spinner is part of the trace).\<close>

record genry =
  vscodeExtension :: vscode_extension
  packagePath :: string
  config :: config
  path :: string

definition MODULE_NAME :: string where
  "MODULE_NAME = ''genry''"

definition TEMPLATE_TYPE :: string where
  "TEMPLATE_TYPE = ''genry''"

section \<open>Effects\<close>

definition log :: "event \<Rightarrow> state \<Rightarrow> state" where
  "log ev s = s\<lparr>trace := trace s @ [ev]\<rparr>"

text \<open>\<open>process.chdir\<close>; the directories the script passes exist.\<close>

definition chdir :: "string \<Rightarrow> state \<Rightarrow> state" where
  "chdir d s = log (Chdir d) (s\<lparr>process_cwd := d\<rparr>)"

section \<open>Template literals\<close>

definition digit :: "nat \<Rightarrow> char" where
  "digit d = ''0123456789'' ! d"

function string_of_nat :: "nat \<Rightarrow> string" where
  "string_of_nat n = (if n < 10 then [digit n] else string_of_nat (n div 10) @ [digit (n mod 10)])"
  by pat_completeness auto
termination
  by (relation "measure id") auto

declare string_of_nat.simps [simp del]

text \<open>\<open>this.config.include || "**"\<close>: an absent and an empty string are both falsy.\<close>

definition include_or_default :: "config \<Rightarrow> string" where
  "include_or_default c = (case cfg_include c of None \<Rightarrow> ''**'' | Some i \<Rightarrow> if i = [] then ''**'' else i)"

definition template_pattern :: "config \<Rightarrow> string" where
  "template_pattern c = include_or_default c @ ''/*.'' @ TEMPLATE_TYPE @ ''.?(ts|js)''"

section \<open>\<open>loadTemplates\<close>\<close>

text \<open>
  \<open>import_of\<close> is the expression \<open>import(path.join(this.packagePath, file))\<close>.
  \<open>load_file\<close> is the callback of \<open>files.map\<close>. It runs to its \<open>return\<close> for one file
  after the other, before anything is awaited: the \<open>try\<close> block contains no \<open>await\<close>, so
  it ends when the promise has been created, and the \<open>catch\<close> clause handles a synchronous
  throw only. \<open>.then((f) => f.default)\<close> turns the module into its default export and leaves
  a rejection as it is.
\<close>

definition import_of :: "env \<Rightarrow> genry \<Rightarrow> string \<Rightarrow> import_outcome" where
  "import_of E g file = dynamic_import E (path_join E (packagePath g) file)"

definition load_file :: "env \<Rightarrow> genry \<Rightarrow> string \<Rightarrow> state \<Rightarrow> settled promise \<times> state" where
  "load_file E g file s =
     (let s1 = log (Import (path_join E (packagePath g) file)) s
      in case import_of E g file of
           Fulfils d \<Rightarrow> (Resolved d, s1)
         | Rejects e \<Rightarrow> (Rejected e, s1)
         | Throws e \<Rightarrow> (Resolved Null, log (ConsoleError e) s1))"

fun map_files :: "env \<Rightarrow> genry \<Rightarrow> string list \<Rightarrow> state \<Rightarrow> settled promise list \<times> state" where
  "map_files E g [] s = ([], s)"
| "map_files E g (file # files) s =
     (case load_file E g file s of (p, s1) \<Rightarrow>
        (case map_files E g files s1 of (ps, s2) \<Rightarrow> (p # ps, s2)))"

text \<open>
  \<open>await Promise.all(ps)\<close>: the values in the order of \<open>ps\<close> when every promise fulfils,
  otherwise the rejection of a promise that rejected (modelled as the first in the order
  of \<open>ps\<close>; the modules are evaluated one after the other).
\<close>

fun promise_all :: "'a promise list \<Rightarrow> error + 'a list" where
  "promise_all [] = Inr []"
| "promise_all (Rejected e # ps) = Inl e"
| "promise_all (Resolved v # ps) = (case promise_all ps of Inl e \<Rightarrow> Inl e | Inr vs \<Rightarrow> Inr (v # vs))"

text \<open>\<open>.filter((v) => v)\<close>: \<open>undefined\<close> and \<open>null\<close> are falsy, objects and arrays are not.\<close>

fun filter_truthy :: "settled list \<Rightarrow> export list" where
  "filter_truthy [] = []"
| "filter_truthy (Undefined # vs) = filter_truthy vs"
| "filter_truthy (Null # vs) = filter_truthy vs"
| "filter_truthy (Value v # vs) = v # filter_truthy vs"

text \<open>\<open>(acc, t) => acc.concat(Array.isArray(t) ? t : [t])\<close>\<close>

definition concat_step :: "template list \<Rightarrow> export \<Rightarrow> template list" where
  "concat_step acc t = acc @ (case t of Many ts \<Rightarrow> ts | Single t1 \<Rightarrow> [t1])"

definition loadTemplates :: "env \<Rightarrow> genry \<Rightarrow> string list \<Rightarrow> state \<Rightarrow> (error + template list) \<times> state" where
  "loadTemplates E g files s =
     (let startedCwd = process_cwd s;
          s1 = chdir (packagePath g) s
      in case map_files E g files s1 of (ps, s2) \<Rightarrow>
           (case promise_all ps of
              Inl e \<Rightarrow> (Inl e, s2)
            | Inr vs \<Rightarrow>
                (let templates = foldl concat_step [] (filter_truthy vs);
                     s3 = chdir startedCwd s2;
                     s4 = log (SpinnerSucceed ''Templates loaded'') s3
                 in (Inr templates, s4))))"

section \<open>\<open>searchTemplates\<close>\<close>

text \<open>The awaited call \<open>promisify(glob)(pattern, options)\<close>; \<open>Inl e\<close> when glob reports an error.\<close>

definition matched_files :: "env \<Rightarrow> genry \<Rightarrow> error + string list" where
  "matched_files E g = glob E (template_pattern (config g))
      \<lparr>dot = True, nodir = True, glob_cwd = packagePath g, ignore = cfg_exclude (config g)\<rparr>"

definition searchTemplates :: "env \<Rightarrow> genry \<Rightarrow> state \<Rightarrow> (error + template list) \<times> state" where
  "searchTemplates E g s =
     (let s1 = log (SpinnerStart ''Loading templates'') s
      in case matched_files E g of
           Inl e \<Rightarrow> (Inl e, s1)
         | Inr files \<Rightarrow>
             if length files = 0 then
               (Inr [], log (VscodeEmit ''notFound'') (log (SpinnerWarn ''Templates not found'') s1))
             else
               (let s2 = log (SpinnerText (if length files = 1 then ''Prepare template''
                              else ''Prepare '' @ string_of_nat (length files) @ '' templates'')) s1;
                    s3 = log (VscodeEmit ''found'') s2
                in loadTemplates E g files s3))"

section \<open>\<open>selectTemplate\<close> and \<open>start\<close>\<close>

text \<open>The object literal that \<open>start\<close> passes to \<open>generate\<close>.\<close>

definition generate_context :: "genry \<Rightarrow> run_context" where
  "generate_context g = \<lparr>ctx_path = path g, ctx_packagePath = packagePath g,
      ctx_ipcServer = serverId (vscodeExtension g), ctx_terminalId = terminalId (vscodeExtension g)\<rparr>"

text \<open>
  \<open>prompts\<close> answers with the \<open>value\<close> of the choice the user takes, or with no \<open>template\<close>
  property at all when the user aborts: \<open>None\<close> is that \<open>undefined\<close>. The \<open>suggest\<close>
  function only filters what the prompt displays and is part of what \<open>prompts\<close> does.
\<close>

definition selectTemplate :: "env \<Rightarrow> template list \<Rightarrow> state \<Rightarrow> template option \<times> state" where
  "selectTemplate E templates s =
     (let choices = map (\<lambda>t. \<lparr>title = name t, choice_description = description t, choice_value = t\<rparr>) templates
      in (prompts E choices, log (Prompts choices) s))"

definition start :: "env \<Rightarrow> genry \<Rightarrow> state \<Rightarrow> (error + unit) \<times> state" where
  "start E g s =
     (case searchTemplates E g s of
        (Inl e, s1) \<Rightarrow> (Inl e, s1)
      | (Inr templates, s1) \<Rightarrow>
          if length templates \<noteq> 0 then
            (case selectTemplate E templates s1 of
               (None, s2) \<Rightarrow> (Inr (), log (VscodeEmit ''end'') s2)
             | (Some t, s2) \<Rightarrow>
                 (let ctx = generate_context g;
                      s3 = log (Generate t ctx (config g)) s2
                  in case generate t ctx (config g) of
                       Inl e \<Rightarrow> (Inl e, s3)
                     | Inr u \<Rightarrow> (Inr (), log (VscodeEmit ''end'') s3)))
          else (Inr (), s1))"

section \<open>The top-level async function\<close>

text \<open>What \<open>getInitConfig\<close> resolves to (yargs, pkg-up and cosmiconfig are not modelled).\<close>

record init_config =
  args_path :: string
  args_ipcServer :: "string option"
  args_terminalId :: "string option"
  init_packagePath :: string
  init_config :: config

text \<open>The constructor of \<open>Genry\<close>: stores its arguments and registers ts-node.\<close>

definition new_Genry :: "vscode_extension \<Rightarrow> string \<Rightarrow> config \<Rightarrow> string \<Rightarrow> state \<Rightarrow> genry \<times> state" where
  "new_Genry v pp c p s = (\<lparr>vscodeExtension = v, packagePath = pp, config = c, path = p\<rparr>, log Register s)"

definition main :: "env \<Rightarrow> error + init_config \<Rightarrow> state \<Rightarrow> (error + unit) \<times> state" where
  "main E init s =
     (case init of
        Inl e \<Rightarrow> (Inl e, s)
      | Inr i \<Rightarrow>
          (let v = \<lparr>serverId = args_ipcServer i, terminalId = args_terminalId i\<rparr>
           in case new_Genry v (init_packagePath i) (init_config i) (args_path i) s of
                (g, s1) \<Rightarrow> start E g s1))"

text \<open>
  Modelled from the spec: the process boundary, which is the Node.js runtime and not part
  of the repository. The promise of the top-level async function is handled by nobody;
  the spec (sections 6 and 7) has the process exit 0 on normal completion and terminate
  with a failing status when a failure is not caught.
\<close>

definition exit_status :: "error + unit \<Rightarrow> nat" where
  "exit_status r = (case r of Inl e \<Rightarrow> 1 | Inr u \<Rightarrow> 0)"

section \<open>Reading a trace\<close>

fun generated :: "event list \<Rightarrow> template list" where
  "generated [] = []"
| "generated (Generate t c cfg # evs) = t # generated evs"
| "generated (ev # evs) = generated evs"

fun emitted :: "event list \<Rightarrow> string list" where
  "emitted [] = []"
| "emitted (VscodeEmit n # evs) = n # emitted evs"
| "emitted (ev # evs) = emitted evs"

fun imported :: "event list \<Rightarrow> string list" where
  "imported [] = []"
| "imported (Import p # evs) = p # imported evs"
| "imported (ev # evs) = imported evs"

fun chdirs :: "event list \<Rightarrow> string list" where
  "chdirs [] = []"
| "chdirs (Chdir p # evs) = p # chdirs evs"
| "chdirs (ev # evs) = chdirs evs"

fun prompted :: "event list \<Rightarrow> nat" where
  "prompted [] = 0"
| "prompted (Prompts cs # evs) = Suc (prompted evs)"
| "prompted (ev # evs) = prompted evs"

fun logged_errors :: "event list \<Rightarrow> error list" where
  "logged_errors [] = []"
| "logged_errors (ConsoleError e # evs) = e # logged_errors evs"
| "logged_errors (ev # evs) = logged_errors evs"

text \<open>The state in which a process starts in directory \<open>d\<close>.\<close>

definition initial :: "string \<Rightarrow> state" where
  "initial d = \<lparr>process_cwd = d, trace = []\<rparr>"

text \<open>The promise and the events of \<open>load_file\<close>, which do not depend on the state.\<close>

definition file_promise :: "env \<Rightarrow> genry \<Rightarrow> string \<Rightarrow> settled promise" where
  "file_promise E g file = (case import_of E g file of
      Fulfils d \<Rightarrow> Resolved d | Rejects e \<Rightarrow> Rejected e | Throws e \<Rightarrow> Resolved Null)"

definition file_events :: "env \<Rightarrow> genry \<Rightarrow> string \<Rightarrow> event list" where
  "file_events E g file = Import (path_join E (packagePath g) file) #
     (case import_of E g file of Throws e \<Rightarrow> [ConsoleError e] | _ \<Rightarrow> [])"

section \<open>What the specification says a file contributes\<close>

text \<open>
  Section 4.1 of the specification, in its words: a file whose import throws contributes
  zero templates; a default export that is a single Template contributes one entry, a
  sequence contributes every element, any other falsy export contributes zero entries.
  The loader is to return these contributions in file order.
\<close>

definition spec_contribution :: "import_outcome \<Rightarrow> template list" where
  "spec_contribution r = (case r of
       Throws e \<Rightarrow> []
     | Rejects e \<Rightarrow> []
     | Fulfils Undefined \<Rightarrow> []
     | Fulfils Null \<Rightarrow> []
     | Fulfils (Value (Single t)) \<Rightarrow> [t]
     | Fulfils (Value (Many ts)) \<Rightarrow> ts)"

definition spec_loader :: "env \<Rightarrow> genry \<Rightarrow> string list \<Rightarrow> template list" where
  "spec_loader E g files = concat (map (\<lambda>f. spec_contribution (import_of E g f)) files)"

section \<open>Example runs\<close>

definition tplA :: template where
  "tplA = \<lparr>name = ''A'', description = None, generate = (\<lambda>c cfg. Inr ())\<rparr>"

definition tplB :: template where
  "tplB = \<lparr>name = ''B'', description = Some ''second'', generate = (\<lambda>c cfg. Inr ())\<rparr>"

definition tplBroken :: template where
  "tplBroken = \<lparr>name = ''Broken'', description = None, generate = (\<lambda>c cfg. Inl (Error ''generate failed''))\<rparr>"

definition proj :: genry where
  "proj = \<lparr>vscodeExtension = \<lparr>serverId = None, terminalId = None\<rparr>, packagePath = ''/proj'',
           config = \<lparr>cfg_include = None, cfg_exclude = None, cfg_registerOptions = None\<rparr>,
           path = ''/proj/src''\<rparr>"

definition proj_init :: init_config where
  "proj_init = \<lparr>args_path = ''/proj/src'', args_ipcServer = None, args_terminalId = None,
                init_packagePath = ''/proj'',
                init_config = \<lparr>cfg_include = None, cfg_exclude = None, cfg_registerOptions = None\<rparr>\<rparr>"

definition example_env :: "string list \<Rightarrow> (string \<Rightarrow> import_outcome) \<Rightarrow> (choice list \<Rightarrow> template option) \<Rightarrow> env" where
  "example_env files modules answer =
     \<lparr>glob = (\<lambda>pattern opts. Inr files), path_join = (\<lambda>a b. a @ ''/'' @ b),
      dynamic_import = modules, prompts = answer\<rparr>"

text \<open>
  The scenario of section 8 of the specification: \<open>a.genry.ts\<close> exports one template,
  \<open>b.genry.js\<close> throws when it is imported.
\<close>

definition scenario_modules :: "string \<Rightarrow> import_outcome" where
  "scenario_modules p = (if p = ''/proj/a.genry.ts'' then Fulfils (Value (Single tplA))
                         else Rejects (Error ''b.genry.js throws''))"

definition scenario_env :: env where
  "scenario_env = example_env [''a.genry.ts'', ''b.genry.js''] scenario_modules (\<lambda>cs. None)"

text \<open>Four files that all load: an array of two, a single template, \<open>null\<close>, no default export.\<close>

definition mixed_modules :: "string \<Rightarrow> import_outcome" where
  "mixed_modules p = (if p = ''/proj/two.genry.ts'' then Fulfils (Value (Many [tplA, tplB]))
                      else if p = ''/proj/one.genry.ts'' then Fulfils (Value (Single tplBroken))
                      else if p = ''/proj/null.genry.js'' then Fulfils Null
                      else Fulfils Undefined)"

definition mixed_files :: "string list" where
  "mixed_files = [''two.genry.ts'', ''one.genry.ts'', ''null.genry.js'', ''none.genry.js'']"

definition mixed_env :: env where
  "mixed_env = example_env mixed_files mixed_modules (\<lambda>cs. None)"

text \<open>A user who takes the first choice of the prompt.\<close>

definition pick_first :: "choice list \<Rightarrow> template option" where
  "pick_first cs = (case cs of [] \<Rightarrow> None | c # rest \<Rightarrow> Some (choice_value c))"

definition picking_env :: env where
  "picking_env = example_env mixed_files mixed_modules pick_first"

text \<open>One file whose only template fails in \<open>generate\<close>, and a user who selects it.\<close>

definition broken_env :: env where
  "broken_env = example_env [''one.genry.ts''] mixed_modules pick_first"

text \<open>No matching file; two matching files that export no template.\<close>

definition empty_env :: env where
  "empty_env = example_env [] mixed_modules pick_first"

definition null_env :: env where
  "null_env = example_env [''null.genry.js'', ''none.genry.js''] mixed_modules pick_first"

text \<open>A package in which the glob call reports an error.\<close>

definition glob_error_env :: env where
  "glob_error_env =
     \<lparr>glob = (\<lambda>pattern opts. Inl (Error ''glob failed'')), path_join = (\<lambda>a b. a @ ''/'' @ b),
      dynamic_import = mixed_modules, prompts = pick_first\<rparr>"

section \<open>The events of a search\<close>

text \<open>
  The events that \<open>loadTemplates\<close> and \<open>searchTemplates\<close> append to the trace, as functions
  of the environment and of the working directory \<open>d\<close> in which the call starts
  (lemmas \<open>loadTemplates_trace\<close> and \<open>searchTemplates_trace\<close>).
\<close>

definition load_events :: "env \<Rightarrow> genry \<Rightarrow> string list \<Rightarrow> string \<Rightarrow> event list" where
  "load_events E g files d = Chdir (packagePath g) # concat (map (file_events E g) files) @
     (case promise_all (map (file_promise E g) files) of
        Inl e \<Rightarrow> [] | Inr vs \<Rightarrow> [Chdir d, SpinnerSucceed ''Templates loaded''])"

definition prepare_text :: "nat \<Rightarrow> string" where
  "prepare_text n = (if n = 1 then ''Prepare template'' else ''Prepare '' @ string_of_nat n @ '' templates'')"

definition search_events :: "env \<Rightarrow> genry \<Rightarrow> string \<Rightarrow> event list" where
  "search_events E g d = (case matched_files E g of
       Inl e \<Rightarrow> [SpinnerStart ''Loading templates'']
     | Inr files \<Rightarrow>
         if files = [] then
           [SpinnerStart ''Loading templates'', SpinnerWarn ''Templates not found'', VscodeEmit ''notFound'']
         else
           [SpinnerStart ''Loading templates'', SpinnerText (prepare_text (length files)), VscodeEmit ''found'']
             @ load_events E g files d)"

section \<open>Facts about the trace readers\<close>

lemma generated_append: "generated (xs @ ys) = generated xs @ generated ys"
  by (induction xs rule: generated.induct) simp_all

lemma emitted_append: "emitted (xs @ ys) = emitted xs @ emitted ys"
  by (induction xs rule: emitted.induct) simp_all

lemma imported_append: "imported (xs @ ys) = imported xs @ imported ys"
  by (induction xs rule: imported.induct) simp_all

lemma chdirs_append: "chdirs (xs @ ys) = chdirs xs @ chdirs ys"
  by (induction xs rule: chdirs.induct) simp_all

lemma prompted_append: "prompted (xs @ ys) = prompted xs + prompted ys"
  by (induction xs rule: prompted.induct) simp_all

section \<open>The loader\<close>

lemma load_file_eq:
  "load_file E g file s = (file_promise E g file, s\<lparr>trace := trace s @ file_events E g file\<rparr>)"
  by (simp add: load_file_def file_promise_def file_events_def log_def Let_def
           split: import_outcome.splits)

lemma map_files_eq:
  "map_files E g files s =
     (map (file_promise E g) files, s\<lparr>trace := trace s @ concat (map (file_events E g) files)\<rparr>)"
  by (induction files arbitrary: s) (simp_all add: load_file_eq)

lemma loadTemplates_eq:
  "loadTemplates E g files s =
     (case promise_all (map (file_promise E g) files) of
        Inl e \<Rightarrow> (Inl e, s\<lparr>process_cwd := packagePath g,
                    trace := trace s @ Chdir (packagePath g) # concat (map (file_events E g) files)\<rparr>)
      | Inr vs \<Rightarrow> (Inr (foldl concat_step [] (filter_truthy vs)),
                  s\<lparr>trace := trace s @ Chdir (packagePath g) # concat (map (file_events E g) files)
                         @ [Chdir (process_cwd s), SpinnerSucceed ''Templates loaded'']\<rparr>))"
  by (simp add: loadTemplates_def map_files_eq chdir_def log_def Let_def split: sum.splits)

lemma foldl_concat_step:
  "foldl concat_step acc vs = acc @ concat (map (\<lambda>v. case v of Many ts \<Rightarrow> ts | Single t \<Rightarrow> [t]) vs)"
  by (induction vs arbitrary: acc) (simp_all add: concat_step_def)

lemma promise_all_no_reject:
  assumes "\<forall>f\<in>set files. \<forall>e. import_of E g f \<noteq> Rejects e"
  shows "\<exists>vs. promise_all (map (file_promise E g) files) = Inr vs \<and>
     concat (map (\<lambda>v. case v of Many ts \<Rightarrow> ts | Single t \<Rightarrow> [t]) (filter_truthy vs))
       = concat (map (\<lambda>f. spec_contribution (import_of E g f)) files)"
  using assms
proof (induction files)
  case Nil
  then show ?case by simp
next
  case (Cons f fs)
  then obtain vs where vs: "promise_all (map (file_promise E g) fs) = Inr vs"
    and eq: "concat (map (\<lambda>v. case v of Many ts \<Rightarrow> ts | Single t \<Rightarrow> [t]) (filter_truthy vs))
       = concat (map (\<lambda>f. spec_contribution (import_of E g f)) fs)"
    by auto
  from Cons.prems have nr: "\<forall>e. import_of E g f \<noteq> Rejects e" by simp
  show ?case
  proof (cases "import_of E g f")
    case (Throws e)
    then have "file_promise E g f = Resolved Null" "spec_contribution (import_of E g f) = []"
      by (simp_all add: file_promise_def spec_contribution_def)
    then show ?thesis using vs eq by simp
  next
    case (Rejects e)
    then show ?thesis using nr by simp
  next
    case (Fulfils d)
    then have fp: "file_promise E g f = Resolved d"
      by (simp add: file_promise_def)
    have "concat (map (\<lambda>v. case v of Many ts \<Rightarrow> ts | Single t \<Rightarrow> [t]) (filter_truthy [d]))
        = spec_contribution (import_of E g f)"
      using Fulfils by (cases d) (simp_all add: spec_contribution_def split: export.splits)
    then show ?thesis using vs eq fp by (cases d) simp_all
  qed
qed

lemma promise_all_reject:
  assumes "f \<in> set files" "import_of E g f = Rejects e"
  shows "\<exists>e'. promise_all (map (file_promise E g) files) = Inl e'"
  using assms
proof (induction files)
  case Nil
  then show ?case by simp
next
  case (Cons a fs)
  show ?case
  proof (cases "file_promise E g a")
    case (Rejected x)
    then show ?thesis by simp
  next
    case (Resolved v)
    then have "a \<noteq> f" using Cons.prems by (auto simp add: file_promise_def)
    then have "f \<in> set fs" using Cons.prems by simp
    then obtain e' where "promise_all (map (file_promise E g) fs) = Inl e'"
      using Cons.IH Cons.prems by blast
    then show ?thesis using Resolved by simp
  qed
qed

text \<open>
  When no import promise rejects, the loader returns what the specification describes and
  puts the working directory back.
\<close>

lemma loadTemplates_all_settle:
  assumes "\<forall>f\<in>set files. \<forall>e. import_of E g f \<noteq> Rejects e"
  shows "fst (loadTemplates E g files s) = Inr (spec_loader E g files)"
    and "process_cwd (snd (loadTemplates E g files s)) = process_cwd s"
proof -
  from promise_all_no_reject [OF assms] obtain vs
    where vs: "promise_all (map (file_promise E g) files) = Inr vs"
      and eq: "concat (map (\<lambda>v. case v of Many ts \<Rightarrow> ts | Single t \<Rightarrow> [t]) (filter_truthy vs))
                 = concat (map (\<lambda>f. spec_contribution (import_of E g f)) files)"
    by blast
  show "fst (loadTemplates E g files s) = Inr (spec_loader E g files)"
    by (simp add: loadTemplates_eq vs foldl_concat_step eq spec_loader_def)
  show "process_cwd (snd (loadTemplates E g files s)) = process_cwd s"
    by (simp add: loadTemplates_eq vs)
qed

text \<open>
  When the import of some file rejects, the loader rejects as a whole: it returns no
  templates, and the process stays in the package root.
\<close>

lemma loadTemplates_some_reject:
  assumes "f \<in> set files" "import_of E g f = Rejects e"
  shows "\<exists>e'. fst (loadTemplates E g files s) = Inl e'"
    and "process_cwd (snd (loadTemplates E g files s)) = packagePath g"
    and "chdirs (trace (snd (loadTemplates E g files s))) = chdirs (trace s) @ [packagePath g]"
proof -
  from promise_all_reject [OF assms] obtain e'
    where e': "promise_all (map (file_promise E g) files) = Inl e'"
    by blast
  have no_chdir: "chdirs (concat (map (file_events E g) fs)) = []" for fs
    by (induction fs) (simp_all add: file_events_def chdirs_append split: import_outcome.splits)
  show "\<exists>e'. fst (loadTemplates E g files s) = Inl e'"
    by (simp add: loadTemplates_eq e')
  show "process_cwd (snd (loadTemplates E g files s)) = packagePath g"
    by (simp add: loadTemplates_eq e')
  show "chdirs (trace (snd (loadTemplates E g files s))) = chdirs (trace s) @ [packagePath g]"
    by (simp add: loadTemplates_eq e' chdirs_append no_chdir)
qed

lemma proj_packagePath: "packagePath proj = ''/proj''"
  by (simp add: proj_def)

lemma scenario_import_a: "import_of scenario_env proj ''a.genry.ts'' = Fulfils (Value (Single tplA))"
  by (simp add: import_of_def scenario_env_def example_env_def scenario_modules_def proj_def)

lemma scenario_import_b: "import_of scenario_env proj ''b.genry.js'' = Rejects (Error ''b.genry.js throws'')"
  by (simp add: import_of_def scenario_env_def example_env_def scenario_modules_def proj_def)

text \<open>
  C1. The specification wants the loader to return the templates of the files that load
  when some imports fail, each failure logged. The code does not: on the scenario of the
  specification (\<open>a.genry.ts\<close> exports template A, the import of \<open>b.genry.js\<close> fails)
  the specification's loader yields \<open>[A]\<close>, whereas \<open>loadTemplates\<close> rejects with the
  failure of \<open>b.genry.js\<close>, returns no template and logs nothing with \<open>console.error\<close>.
\<close>

theorem loadTemplates_scenario_rejects:
  "spec_loader scenario_env proj [''a.genry.ts'', ''b.genry.js''] = [tplA]
   \<and> fst (loadTemplates scenario_env proj [''a.genry.ts'', ''b.genry.js''] (initial ''/home/user''))
       = Inl (Error ''b.genry.js throws'')
   \<and> logged_errors (trace (snd (loadTemplates scenario_env proj [''a.genry.ts'', ''b.genry.js'']
        (initial ''/home/user'')))) = []"
  by (simp add: spec_loader_def spec_contribution_def loadTemplates_eq file_promise_def file_events_def
        scenario_import_a scenario_import_b initial_def)

text \<open>
  C2. The specification wants the working directory after \<open>loadTemplates\<close> to be the one
  before it on every exit path. On the same scenario the process starts in
  \<open>/home/user\<close> and is left in the package root \<open>/proj\<close>: the only \<open>chdir\<close> of the call is
  the one into the package root, the restoring one is never reached.
\<close>

theorem loadTemplates_scenario_cwd:
  "process_cwd (initial ''/home/user'') = ''/home/user''
   \<and> process_cwd (snd (loadTemplates scenario_env proj [''a.genry.ts'', ''b.genry.js'']
        (initial ''/home/user''))) = ''/proj''
   \<and> chdirs (trace (snd (loadTemplates scenario_env proj [''a.genry.ts'', ''b.genry.js'']
        (initial ''/home/user'')))) = [''/proj'']"
  by (simp add: loadTemplates_eq file_promise_def file_events_def
        scenario_import_a scenario_import_b initial_def proj_packagePath)

text \<open>
  C4. The specification wants every file that was imported successfully to contribute
  the N elements of its default export when that is an array of N templates, one entry
  when it is a single template, and none when it is \<open>null\<close> or \<open>undefined\<close>. On the
  scenario above \<open>a.genry.ts\<close> is imported successfully and exports a single template,
  so that it is to contribute one entry; but \<open>loadTemplates\<close> rejects, there is no result,
  and the file contributes nothing.
\<close>

theorem loadTemplates_scenario_contribution:
  "import_of scenario_env proj ''a.genry.ts'' = Fulfils (Value (Single tplA))
   \<and> length (spec_contribution (import_of scenario_env proj ''a.genry.ts'')) = 1
   \<and> (\<forall>ts. fst (loadTemplates scenario_env proj [''a.genry.ts'', ''b.genry.js'']
              (initial ''/home/user'')) \<noteq> Inr ts)"
  by (simp add: spec_contribution_def loadTemplates_eq file_promise_def
        scenario_import_a scenario_import_b)

text \<open>
  In a call of \<open>loadTemplates\<close> in which no import rejects, the counts are the ones the
  specification gives: the result is the concatenation, in file order, of what each file
  contributes.
\<close>

lemma loadTemplates_entries_per_file:
  assumes "\<forall>f\<in>set files. \<forall>e. import_of E g f \<noteq> Rejects e"
  shows "fst (loadTemplates E g files s) = Inr (concat (map (\<lambda>f. spec_contribution (import_of E g f)) files))
       \<and> (\<forall>f\<in>set files. \<forall>ts. import_of E g f = Fulfils (Value (Many ts))
             \<longrightarrow> spec_contribution (import_of E g f) = ts \<and> length (spec_contribution (import_of E g f)) = length ts)
       \<and> (\<forall>f\<in>set files. \<forall>t. import_of E g f = Fulfils (Value (Single t))
             \<longrightarrow> spec_contribution (import_of E g f) = [t] \<and> length (spec_contribution (import_of E g f)) = 1)
       \<and> (\<forall>f\<in>set files. import_of E g f = Fulfils Null \<or> import_of E g f = Fulfils Undefined
             \<longrightarrow> length (spec_contribution (import_of E g f)) = 0)"
proof -
  from promise_all_no_reject [OF assms] obtain vs
    where vs: "promise_all (map (file_promise E g) files) = Inr vs"
      and eq: "concat (map (\<lambda>v. case v of Many ts \<Rightarrow> ts | Single t \<Rightarrow> [t]) (filter_truthy vs))
                 = concat (map (\<lambda>f. spec_contribution (import_of E g f)) files)"
    by blast
  have "fst (loadTemplates E g files s) = Inr (concat (map (\<lambda>f. spec_contribution (import_of E g f)) files))"
    by (simp add: loadTemplates_eq vs foldl_concat_step eq)
  then show ?thesis
    by (auto simp add: spec_contribution_def)
qed

lemma mixed_imports:
  "import_of mixed_env proj ''two.genry.ts'' = Fulfils (Value (Many [tplA, tplB]))"
  "import_of mixed_env proj ''one.genry.ts'' = Fulfils (Value (Single tplBroken))"
  "import_of mixed_env proj ''null.genry.js'' = Fulfils Null"
  "import_of mixed_env proj ''none.genry.js'' = Fulfils Undefined"
  by (simp_all add: import_of_def mixed_env_def example_env_def mixed_modules_def proj_def)

text \<open>Four files that load: an array of two templates, a single template, \<open>null\<close>, no default export.\<close>

lemma loadTemplates_entries_per_file_example:
  "fst (loadTemplates mixed_env proj mixed_files (initial ''/home/user'')) = Inr [tplA, tplB, tplBroken]
   \<and> length (spec_contribution (import_of mixed_env proj ''two.genry.ts'')) = 2
   \<and> length (spec_contribution (import_of mixed_env proj ''one.genry.ts'')) = 1
   \<and> length (spec_contribution (import_of mixed_env proj ''null.genry.js'')) = 0
   \<and> length (spec_contribution (import_of mixed_env proj ''none.genry.js'')) = 0"
proof -
  have h: "\<forall>f\<in>set mixed_files. \<forall>e. import_of mixed_env proj f \<noteq> Rejects e"
    by (simp add: mixed_files_def mixed_imports)
  from loadTemplates_entries_per_file [OF h, of "initial ''/home/user''"]
  show ?thesis
    by (simp add: mixed_files_def mixed_imports spec_contribution_def)
qed


section \<open>The glob pattern\<close>

text \<open>
  Whatever the configuration, the pattern handed to glob is a non-empty directory part
  followed by the fixed file name pattern.
\<close>

lemma template_pattern_suffix:
  "\<exists>dir. dir \<noteq> [] \<and> template_pattern c = dir @ ''/*.genry.?(ts|js)''"
  by (simp add: template_pattern_def include_or_default_def TEMPLATE_TYPE_def split: option.splits)

section \<open>The run\<close>

lemma loadTemplates_trace:
  "trace (snd (loadTemplates E g files s)) = trace s @ load_events E g files (process_cwd s)"
  by (simp add: loadTemplates_eq load_events_def split: sum.splits)

lemma searchTemplates_trace:
  "trace (snd (searchTemplates E g s)) = trace s @ search_events E g (process_cwd s)"
  by (simp add: searchTemplates_def search_events_def loadTemplates_trace log_def Let_def prepare_text_def
        split: sum.splits)

lemma file_events_read:
  "generated (concat (map (file_events E g) files)) = []"
  "prompted (concat (map (file_events E g) files)) = 0"
  "emitted (concat (map (file_events E g) files)) = []"
  by (induction files)
     (simp_all add: file_events_def generated_append prompted_append emitted_append split: import_outcome.splits)

lemma load_events_read:
  "generated (load_events E g files d) = []"
  "prompted (load_events E g files d) = 0"
  "emitted (load_events E g files d) = []"
  by (simp_all add: load_events_def generated_append prompted_append emitted_append file_events_read
        split: sum.splits)

lemma search_events_read:
  "generated (search_events E g d) = []"
  "prompted (search_events E g d) = 0"
  "emitted (search_events E g d) = (case matched_files E g of Inl e \<Rightarrow> []
      | Inr files \<Rightarrow> if files = [] then [''notFound''] else [''found''])"
  by (simp_all add: search_events_def load_events_read split: sum.splits)

lemma searchTemplates_no_match:
  assumes "matched_files E g = Inr []"
  shows "searchTemplates E g s = (Inr [], log (VscodeEmit ''notFound'')
           (log (SpinnerWarn ''Templates not found'') (log (SpinnerStart ''Loading templates'') s)))"
  by (simp add: searchTemplates_def assms Let_def)

lemma searchTemplates_result:
  "fst (searchTemplates E g s) = (case matched_files E g of
       Inl e \<Rightarrow> Inl e
     | Inr files \<Rightarrow> if files = [] then Inr []
         else (case promise_all (map (file_promise E g) files) of
                 Inl e \<Rightarrow> Inl e | Inr vs \<Rightarrow> Inr (foldl concat_step [] (filter_truthy vs))))"
  by (simp add: searchTemplates_def loadTemplates_eq Let_def split: sum.splits)

lemma main_start:
  assumes "new_Genry \<lparr>serverId = args_ipcServer i, terminalId = args_terminalId i\<rparr>
             (init_packagePath i) (init_config i) (args_path i) s0 = (g, s)"
  shows "main E (Inr i) s0 = start E g s"
  using assms by (simp add: main_def Let_def)

lemma new_Genry_trace:
  assumes "new_Genry v pp c p s0 = (g, s)"
  shows "trace s = trace s0 @ [Register]"
  using assms by (auto simp add: new_Genry_def log_def)

lemma selectTemplate_trace:
  assumes "selectTemplate E ts s1 = (r, s2)"
  shows "\<exists>cs. trace s2 = trace s1 @ [Prompts cs]"
  using assms by (auto simp add: selectTemplate_def log_def Let_def)

lemma start_search_fails:
  assumes "searchTemplates E g s = (Inl e, s1)"
  shows "start E g s = (Inl e, s1)"
  by (simp add: start_def assms)

lemma start_no_templates:
  assumes "searchTemplates E g s = (Inr [], s1)"
  shows "start E g s = (Inr (), s1)"
  by (simp add: start_def assms)

lemma start_cancelled:
  assumes "searchTemplates E g s = (Inr ts, s1)" "ts \<noteq> []" "selectTemplate E ts s1 = (None, s2)"
  shows "start E g s = (Inr (), log (VscodeEmit ''end'') s2)"
  by (simp add: start_def assms)

lemma start_generate_fails:
  assumes "searchTemplates E g s = (Inr ts, s1)" "ts \<noteq> []" "selectTemplate E ts s1 = (Some t, s2)"
    "generate t (generate_context g) (config g) = Inl e"
  shows "start E g s = (Inl e, log (Generate t (generate_context g) (config g)) s2)"
  by (simp add: start_def assms Let_def)

lemma start_generate_ok:
  assumes "searchTemplates E g s = (Inr ts, s1)" "ts \<noteq> []" "selectTemplate E ts s1 = (Some t, s2)"
    "generate t (generate_context g) (config g) = Inr u"
  shows "start E g s = (Inr (), log (VscodeEmit ''end'') (log (Generate t (generate_context g) (config g)) s2))"
  by (simp add: start_def assms Let_def)

lemma search_state_trace:
  assumes "searchTemplates E g s = (r, s1)"
  shows "trace s1 = trace s @ search_events E g (process_cwd s)"
  using searchTemplates_trace [of E g s] assms by simp

text \<open>
  C3. When the template the user selected fails in \<open>generate\<close>, \<open>start\<close> rejects with that
  very failure right after the one call of \<open>generate\<close> (nothing is caught, nothing is
  retried, no \<open>end\<close> notification follows), the top-level async function rejects with
  it as well, and the process ends with a non-zero status.
\<close>

theorem generate_failure_propagates:
  assumes "new_Genry \<lparr>serverId = args_ipcServer i, terminalId = args_terminalId i\<rparr>
             (init_packagePath i) (init_config i) (args_path i) (initial d) = (g, s)"
    and "searchTemplates E g s = (Inr ts, s1)"
    and "ts \<noteq> []"
    and "selectTemplate E ts s1 = (Some t, s2)"
    and "generate t (generate_context g) (config g) = Inl e"
  shows "start E g s = (Inl e, log (Generate t (generate_context g) (config g)) s2)
       \<and> main E (Inr i) (initial d) = (Inl e, log (Generate t (generate_context g) (config g)) s2)
       \<and> generated (trace (snd (main E (Inr i) (initial d)))) = [t]
       \<and> ''end'' \<notin> set (emitted (trace (snd (main E (Inr i) (initial d)))))
       \<and> exit_status (fst (main E (Inr i) (initial d))) \<noteq> 0"
proof -
  have st: "start E g s = (Inl e, log (Generate t (generate_context g) (config g)) s2)"
    using assms(2-5) by (rule start_generate_fails)
  have mn: "main E (Inr i) (initial d) = start E g s"
    using assms(1) by (rule main_start)
  have t0: "trace s = [Register]"
    using new_Genry_trace [OF assms(1)] by (simp add: initial_def)
  have t1: "trace s1 = trace s @ search_events E g (process_cwd s)"
    using assms(2) by (rule search_state_trace)
  obtain cs where t2: "trace s2 = trace s1 @ [Prompts cs]"
    using selectTemplate_trace [OF assms(4)] by blast
  have tr: "trace (snd (main E (Inr i) (initial d)))
      = Register # search_events E g (process_cwd s) @ [Prompts cs, Generate t (generate_context g) (config g)]"
    by (simp add: mn st log_def t0 t1 t2)
  have "emitted (search_events E g (process_cwd s)) = [''found''] \<or> emitted (search_events E g (process_cwd s)) = [''notFound'']
        \<or> emitted (search_events E g (process_cwd s)) = []"
    by (simp add: search_events_read split: sum.splits)
  then have "''end'' \<notin> set (emitted (trace (snd (main E (Inr i) (initial d)))))"
    by (auto simp add: tr emitted_append)
  moreover have "generated (trace (snd (main E (Inr i) (initial d)))) = [t]"
    by (simp add: tr generated_append search_events_read)
  ultimately show ?thesis
    by (simp add: mn st exit_status_def)
qed


lemma pair_with_snd: "fst p = a \<Longrightarrow> p = (a, snd p)"
  by (cases p) simp

lemma start_trace_cases:
  "\<exists>tail. trace (snd (start E g s)) = trace s @ search_events E g (process_cwd s) @ tail
      \<and> (emitted tail = [] \<or> emitted tail = [''end'']) \<and> length (generated tail) \<le> 1
      \<and> imported tail = []"
proof (cases "searchTemplates E g s")
  case (Pair r s1)
  have t1: "trace s1 = trace s @ search_events E g (process_cwd s)"
    using Pair by (rule search_state_trace)
  show ?thesis
  proof (cases r)
    case (Inl e)
    then have "start E g s = (Inl e, s1)" using Pair by (simp add: start_search_fails)
    then show ?thesis using t1 by simp
  next
    case (Inr ts)
    show ?thesis
    proof (cases "ts = []")
      case True
      then have "start E g s = (Inr (), s1)" using Pair Inr by (simp add: start_no_templates)
      then show ?thesis using t1 by simp
    next
      case False
      obtain r2 s2 where sel: "selectTemplate E ts s1 = (r2, s2)"
        by (cases "selectTemplate E ts s1")
      obtain cs where t2: "trace s2 = trace s1 @ [Prompts cs]"
        using selectTemplate_trace [OF sel] by blast
      have srch: "searchTemplates E g s = (Inr ts, s1)" using Pair Inr by simp
      show ?thesis
      proof (cases r2)
        case None
        then have "start E g s = (Inr (), log (VscodeEmit ''end'') s2)"
          using start_cancelled [OF srch False] sel by simp
        then have "trace (snd (start E g s)) = trace s @ search_events E g (process_cwd s) @ [Prompts cs, VscodeEmit ''end'']"
          by (simp add: log_def t1 t2)
        then show ?thesis by simp
      next
        case (Some t)
        then have sel': "selectTemplate E ts s1 = (Some t, s2)" using sel by simp
        show ?thesis
        proof (cases "generate t (generate_context g) (config g)")
          case (Inl e)
          have "start E g s = (Inl e, log (Generate t (generate_context g) (config g)) s2)"
            using srch False sel' Inl by (rule start_generate_fails)
          then have "trace (snd (start E g s)) = trace s @ search_events E g (process_cwd s)
                @ [Prompts cs, Generate t (generate_context g) (config g)]"
            by (simp add: log_def t1 t2)
          then show ?thesis by simp
        next
          case (Inr u)
          have "start E g s = (Inr (), log (VscodeEmit ''end'') (log (Generate t (generate_context g) (config g)) s2))"
            using srch False sel' Inr by (rule start_generate_ok)
          then have "trace (snd (start E g s)) = trace s @ search_events E g (process_cwd s)
                @ [Prompts cs, Generate t (generate_context g) (config g), VscodeEmit ''end'']"
            by (simp add: log_def t1 t2)
          then show ?thesis by simp
        qed
      qed
    qed
  qed
qed

lemma file_events_imported:
  "imported (concat (map (file_events E g) files)) = map (path_join E (packagePath g)) files"
  by (induction files) (simp_all add: file_events_def split: import_outcome.splits)

lemma search_events_split:
  assumes "matched_files E g = Inr files"
  shows "\<exists>pre post. search_events E g d = pre @ VscodeEmit (if files = [] then ''notFound'' else ''found'') # post
           \<and> imported pre = [] \<and> emitted pre = [] \<and> emitted post = []
           \<and> imported post = map (path_join E (packagePath g)) files"
proof (cases "files = []")
  case True
  then have "search_events E g d = [SpinnerStart ''Loading templates'', SpinnerWarn ''Templates not found'']
       @ VscodeEmit ''notFound'' # []"
    using assms by (simp add: search_events_def)
  then show ?thesis using True by (intro exI [of _ "[SpinnerStart ''Loading templates'', SpinnerWarn ''Templates not found'']"] exI [of _ "[]"]) simp
next
  case False
  then have "search_events E g d = [SpinnerStart ''Loading templates'', SpinnerText (prepare_text (length files))]
       @ VscodeEmit ''found'' # load_events E g files d"
    using assms by (simp add: search_events_def)
  moreover have "imported (load_events E g files d) = map (path_join E (packagePath g)) files"
    by (simp add: load_events_def imported_append file_events_imported split: sum.splits)
  ultimately show ?thesis using False
    by (intro exI [of _ "[SpinnerStart ''Loading templates'', SpinnerText (prepare_text (length files))]"]
          exI [of _ "load_events E g files d"]) (simp add: load_events_read)
qed

text \<open>
  C8, as amended. In a run in which the glob expansion yields its list of files, the trace holds
  exactly one \<open>found\<close> or \<open>notFound\<close> notification: \<open>notFound\<close> when the list is empty,
  \<open>found\<close> otherwise. No import happens before it, and every matched file is imported
  after it, whatever the imports then do.
\<close>

theorem found_or_notFound_once_before_imports:
  assumes "new_Genry \<lparr>serverId = args_ipcServer i, terminalId = args_terminalId i\<rparr>
             (init_packagePath i) (init_config i) (args_path i) (initial d) = (g, s)"
    and "matched_files E g = Inr files"
  shows "\<exists>pre post. trace (snd (main E (Inr i) (initial d)))
             = pre @ VscodeEmit (if files = [] then ''notFound'' else ''found'') # post
           \<and> imported pre = []
           \<and> ''found'' \<notin> set (emitted pre) \<and> ''notFound'' \<notin> set (emitted pre)
           \<and> ''found'' \<notin> set (emitted post) \<and> ''notFound'' \<notin> set (emitted post)
           \<and> imported post = map (path_join E (packagePath g)) files"
proof -
  have mn: "main E (Inr i) (initial d) = start E g s"
    using assms(1) by (rule main_start)
  have t0: "trace s = [Register]"
    using new_Genry_trace [OF assms(1)] by (simp add: initial_def)
  obtain tail where tr: "trace (snd (start E g s)) = trace s @ search_events E g (process_cwd s) @ tail"
    and em: "emitted tail = [] \<or> emitted tail = [''end'']" and im: "imported tail = []"
    using start_trace_cases [of E g s] by blast
  obtain pre post where sp: "search_events E g (process_cwd s)
        = pre @ VscodeEmit (if files = [] then ''notFound'' else ''found'') # post"
    and pre: "imported pre = []" "emitted pre = []" and post: "emitted post = []"
    and ip: "imported post = map (path_join E (packagePath g)) files"
    using search_events_split [OF assms(2), of "process_cwd s"] by blast
  have "trace (snd (main E (Inr i) (initial d)))
      = (Register # pre) @ VscodeEmit (if files = [] then ''notFound'' else ''found'') # (post @ tail)"
    by (simp add: mn tr t0 sp)
  moreover have "imported (Register # pre) = []" "emitted (Register # pre) = []"
    using pre by simp_all
  moreover have "''found'' \<notin> set (emitted (post @ tail))" "''notFound'' \<notin> set (emitted (post @ tail))"
    using em post by (auto simp add: emitted_append)
  moreover have "imported (post @ tail) = map (path_join E (packagePath g)) files"
    using ip im by (simp add: imported_append)
  ultimately show ?thesis
    by (intro exI [of _ "Register # pre"] exI [of _ "post @ tail"]) simp
qed


lemma new_Genry_state:
  assumes "new_Genry v pp c p (initial d) = (g, s)"
  shows "trace s = [Register]" and "process_cwd s = d"
  using assms by (auto simp add: new_Genry_def log_def initial_def)

lemma run_trace_search_fails:
  assumes "new_Genry \<lparr>serverId = args_ipcServer i, terminalId = args_terminalId i\<rparr>
             (init_packagePath i) (init_config i) (args_path i) (initial d) = (g, s)"
    and "searchTemplates E g s = (Inl e, s1)"
  shows "main E (Inr i) (initial d) = (Inl e, s1)"
    and "trace (snd (main E (Inr i) (initial d))) = Register # search_events E g d"
proof -
  show m: "main E (Inr i) (initial d) = (Inl e, s1)"
    using main_start [OF assms(1)] start_search_fails [OF assms(2)] by simp
  show "trace (snd (main E (Inr i) (initial d))) = Register # search_events E g d"
    using search_state_trace [OF assms(2)] new_Genry_state [OF assms(1)] by (simp add: m)
qed

lemma run_trace_no_templates:
  assumes "new_Genry \<lparr>serverId = args_ipcServer i, terminalId = args_terminalId i\<rparr>
             (init_packagePath i) (init_config i) (args_path i) (initial d) = (g, s)"
    and "searchTemplates E g s = (Inr [], s1)"
  shows "main E (Inr i) (initial d) = (Inr (), s1)"
    and "trace (snd (main E (Inr i) (initial d))) = Register # search_events E g d"
proof -
  show m: "main E (Inr i) (initial d) = (Inr (), s1)"
    using main_start [OF assms(1)] start_no_templates [OF assms(2)] by simp
  show "trace (snd (main E (Inr i) (initial d))) = Register # search_events E g d"
    using search_state_trace [OF assms(2)] new_Genry_state [OF assms(1)] by (simp add: m)
qed

lemma run_trace_cancelled:
  assumes "new_Genry \<lparr>serverId = args_ipcServer i, terminalId = args_terminalId i\<rparr>
             (init_packagePath i) (init_config i) (args_path i) (initial d) = (g, s)"
    and "searchTemplates E g s = (Inr ts, s1)" and "ts \<noteq> []"
    and "selectTemplate E ts s1 = (None, s2)"
  shows "main E (Inr i) (initial d) = (Inr (), log (VscodeEmit ''end'') s2)"
    and "\<exists>cs. trace (snd (main E (Inr i) (initial d)))
            = Register # search_events E g d @ [Prompts cs, VscodeEmit ''end'']"
proof -
  show m: "main E (Inr i) (initial d) = (Inr (), log (VscodeEmit ''end'') s2)"
    using main_start [OF assms(1)] start_cancelled [OF assms(2-4)] by simp
  obtain cs where "trace s2 = trace s1 @ [Prompts cs]"
    using selectTemplate_trace [OF assms(4)] by blast
  then have "trace (snd (main E (Inr i) (initial d)))
            = Register # search_events E g d @ [Prompts cs, VscodeEmit ''end'']"
    using search_state_trace [OF assms(2)] new_Genry_state [OF assms(1)] by (simp add: m log_def)
  then show "\<exists>cs. trace (snd (main E (Inr i) (initial d)))
            = Register # search_events E g d @ [Prompts cs, VscodeEmit ''end'']"
    by blast
qed

lemma run_trace_generate:
  assumes "new_Genry \<lparr>serverId = args_ipcServer i, terminalId = args_terminalId i\<rparr>
             (init_packagePath i) (init_config i) (args_path i) (initial d) = (g, s)"
    and "searchTemplates E g s = (Inr ts, s1)" and "ts \<noteq> []"
    and "selectTemplate E ts s1 = (Some t, s2)"
  shows "fst (main E (Inr i) (initial d))
           = (case generate t (generate_context g) (config g) of Inl e \<Rightarrow> Inl e | Inr u \<Rightarrow> Inr ())"
    and "\<exists>cs. trace (snd (main E (Inr i) (initial d)))
            = Register # search_events E g d @ Prompts cs # Generate t (generate_context g) (config g) #
                (case generate t (generate_context g) (config g) of Inl e \<Rightarrow> [] | Inr u \<Rightarrow> [VscodeEmit ''end''])"
proof -
  obtain cs where cs: "trace s2 = trace s1 @ [Prompts cs]"
    using selectTemplate_trace [OF assms(4)] by blast
  have t2: "trace s2 = Register # search_events E g d @ [Prompts cs]"
    using cs search_state_trace [OF assms(2)] new_Genry_state [OF assms(1)] by simp
  have m: "main E (Inr i) (initial d) = start E g s"
    using assms(1) by (rule main_start)
  have "fst (main E (Inr i) (initial d))
           = (case generate t (generate_context g) (config g) of Inl e \<Rightarrow> Inl e | Inr u \<Rightarrow> Inr ())
     \<and> trace (snd (main E (Inr i) (initial d)))
            = Register # search_events E g d @ Prompts cs # Generate t (generate_context g) (config g) #
                (case generate t (generate_context g) (config g) of Inl e \<Rightarrow> [] | Inr u \<Rightarrow> [VscodeEmit ''end''])"
  proof (cases "generate t (generate_context g) (config g)")
    case (Inl e)
    show ?thesis
      using start_generate_fails [OF assms(2-4) Inl] by (simp add: m Inl log_def t2)
  next
    case (Inr u)
    show ?thesis
      using start_generate_ok [OF assms(2-4) Inr] by (simp add: m Inr log_def t2)
  qed
  then show "fst (main E (Inr i) (initial d))
           = (case generate t (generate_context g) (config g) of Inl e \<Rightarrow> Inl e | Inr u \<Rightarrow> Inr ())"
    and "\<exists>cs. trace (snd (main E (Inr i) (initial d)))
            = Register # search_events E g d @ Prompts cs # Generate t (generate_context g) (config g) #
                (case generate t (generate_context g) (config g) of Inl e \<Rightarrow> [] | Inr u \<Rightarrow> [VscodeEmit ''end''])"
    by blast+
qed

lemma search_found:
  assumes "searchTemplates E g s = (Inr ts, s1)" and "ts \<noteq> []"
  shows "emitted (search_events E g d) = [''found'']"
proof -
  have "fst (searchTemplates E g s) = Inr ts" using assms(1) by simp
  then have "\<exists>files. matched_files E g = Inr files \<and> files \<noteq> []"
    using assms(2) by (auto simp add: searchTemplates_result split: sum.splits if_splits)
  then show ?thesis by (auto simp add: search_events_read)
qed

text \<open>
  C5. When the glob expansion matches no file, \<open>searchTemplates\<close> warns, emits \<open>notFound\<close>
  and returns the empty sequence. The whole run then consists of these events only:
  nothing is imported, the prompt is not shown, no template is invoked, and the
  top-level promise fulfils, so that the process exits with status 0.
\<close>

theorem no_match_is_not_an_error:
  assumes "new_Genry \<lparr>serverId = args_ipcServer i, terminalId = args_terminalId i\<rparr>
             (init_packagePath i) (init_config i) (args_path i) (initial d) = (g, s)"
    and "matched_files E g = Inr []"
  shows "searchTemplates E g s = (Inr [], log (VscodeEmit ''notFound'')
           (log (SpinnerWarn ''Templates not found'') (log (SpinnerStart ''Loading templates'') s)))
       \<and> trace (snd (main E (Inr i) (initial d))) = [Register, SpinnerStart ''Loading templates'',
             SpinnerWarn ''Templates not found'', VscodeEmit ''notFound'']
       \<and> emitted (trace (snd (main E (Inr i) (initial d)))) = [''notFound'']
       \<and> imported (trace (snd (main E (Inr i) (initial d)))) = []
       \<and> prompted (trace (snd (main E (Inr i) (initial d)))) = 0
       \<and> generated (trace (snd (main E (Inr i) (initial d)))) = []
       \<and> fst (main E (Inr i) (initial d)) = Inr ()
       \<and> exit_status (fst (main E (Inr i) (initial d))) = 0"
proof -
  have srch: "searchTemplates E g s = (Inr [], log (VscodeEmit ''notFound'')
           (log (SpinnerWarn ''Templates not found'') (log (SpinnerStart ''Loading templates'') s)))"
    using assms(2) by (rule searchTemplates_no_match)
  have ev: "search_events E g d = [SpinnerStart ''Loading templates'',
             SpinnerWarn ''Templates not found'', VscodeEmit ''notFound'']"
    by (simp add: search_events_def assms(2))
  have tr: "trace (snd (main E (Inr i) (initial d))) = [Register, SpinnerStart ''Loading templates'',
             SpinnerWarn ''Templates not found'', VscodeEmit ''notFound'']"
    using run_trace_no_templates(2) [OF assms(1) srch] by (simp add: ev)
  have res: "fst (main E (Inr i) (initial d)) = Inr ()"
    using run_trace_no_templates(1) [OF assms(1) srch] by simp
  show ?thesis
    using srch by (simp add: tr res exit_status_def)
qed

text \<open>
  C7. When templates were loaded and the user leaves the prompt without a choice
  (\<open>selectTemplate\<close> returns \<open>undefined\<close>), no \<open>generate\<close> is called, the \<open>end\<close>
  notification is emitted as the last event of the run, and the top-level promise
  fulfils: exit status 0.
\<close>

theorem cancelled_selection_ends_normally:
  assumes "new_Genry \<lparr>serverId = args_ipcServer i, terminalId = args_terminalId i\<rparr>
             (init_packagePath i) (init_config i) (args_path i) (initial d) = (g, s)"
    and "searchTemplates E g s = (Inr ts, s1)"
    and "ts \<noteq> []"
    and "selectTemplate E ts s1 = (None, s2)"
  shows "main E (Inr i) (initial d) = (Inr (), log (VscodeEmit ''end'') s2)
       \<and> generated (trace (snd (main E (Inr i) (initial d)))) = []
       \<and> emitted (trace (snd (main E (Inr i) (initial d)))) = [''found'', ''end'']
       \<and> exit_status (fst (main E (Inr i) (initial d))) = 0"
proof -
  have m: "main E (Inr i) (initial d) = (Inr (), log (VscodeEmit ''end'') s2)"
    using assms by (rule run_trace_cancelled(1))
  obtain cs where tr: "trace (snd (main E (Inr i) (initial d)))
            = Register # search_events E g d @ [Prompts cs, VscodeEmit ''end'']"
    using run_trace_cancelled(2) [OF assms] by blast
  have "generated (trace (snd (main E (Inr i) (initial d)))) = []"
    by (simp add: tr generated_append search_events_read)
  moreover have "emitted (trace (snd (main E (Inr i) (initial d)))) = [''found'', ''end'']"
    by (simp add: tr emitted_append search_found [OF assms(2,3)])
  moreover have "exit_status (fst (main E (Inr i) (initial d))) = 0"
    by (simp add: m exit_status_def)
  ultimately show ?thesis using m by blast
qed


lemma loadTemplates_result_cases:
  "(\<exists>e. fst (loadTemplates E g files s) = Inl e) \<or> fst (loadTemplates E g files s) = Inr (spec_loader E g files)"
proof (cases "\<exists>f\<in>set files. \<exists>e. import_of E g f = Rejects e")
  case True
  then show ?thesis using loadTemplates_some_reject(1) by blast
next
  case False
  then have "\<forall>f\<in>set files. \<forall>e. import_of E g f \<noteq> Rejects e" by blast
  then show ?thesis using loadTemplates_all_settle(1) by blast
qed

lemma searchTemplates_found_load:
  assumes "matched_files E g = Inr files" "files \<noteq> []"
  shows "\<exists>s'. searchTemplates E g s = loadTemplates E g files s'"
  using assms by (simp add: searchTemplates_def Let_def) blast

text \<open>
  C6. In every run (whatever \<open>getInitConfig\<close>, the search and the prompt do) at most one
  call of a template's \<open>generate\<close> happens. When the search has returned templates and
  the user selects one, the calls of the run are exactly the one call of the selected
  template; when the search has returned no template, or the user selects none, there is
  no call.
\<close>

theorem generate_invoked_at_most_once:
  "length (generated (trace (snd (main E init (initial d))))) \<le> 1
   \<and> (\<forall>i g s ts s1.
         init = Inr i
         \<and> new_Genry \<lparr>serverId = args_ipcServer i, terminalId = args_terminalId i\<rparr>
              (init_packagePath i) (init_config i) (args_path i) (initial d) = (g, s)
         \<and> searchTemplates E g s = (Inr ts, s1)
         \<longrightarrow> (ts = [] \<longrightarrow> generated (trace (snd (main E init (initial d)))) = [])
           \<and> (\<forall>s2. ts \<noteq> [] \<and> selectTemplate E ts s1 = (None, s2)
                  \<longrightarrow> generated (trace (snd (main E init (initial d)))) = [])
           \<and> (\<forall>t s2. ts \<noteq> [] \<and> selectTemplate E ts s1 = (Some t, s2)
                  \<longrightarrow> generated (trace (snd (main E init (initial d)))) = [t]))"
proof (intro conjI allI impI)
  show "length (generated (trace (snd (main E init (initial d))))) \<le> 1"
  proof (cases init)
    case (Inl e)
    then show ?thesis by (simp add: main_def initial_def)
  next
    case (Inr i)
    obtain g s where gs: "new_Genry \<lparr>serverId = args_ipcServer i, terminalId = args_terminalId i\<rparr>
              (init_packagePath i) (init_config i) (args_path i) (initial d) = (g, s)"
      by (cases "new_Genry \<lparr>serverId = args_ipcServer i, terminalId = args_terminalId i\<rparr>
              (init_packagePath i) (init_config i) (args_path i) (initial d)")
    obtain tail where "trace (snd (start E g s)) = trace s @ search_events E g (process_cwd s) @ tail"
      and "length (generated tail) \<le> 1"
      using start_trace_cases [of E g s] by blast
    then show ?thesis
      using main_start [OF gs, of E] new_Genry_state [OF gs] Inr
      by (simp add: generated_append search_events_read)
  qed
next
  fix i g s ts s1
  assume h: "init = Inr i
         \<and> new_Genry \<lparr>serverId = args_ipcServer i, terminalId = args_terminalId i\<rparr>
              (init_packagePath i) (init_config i) (args_path i) (initial d) = (g, s)
         \<and> searchTemplates E g s = (Inr ts, s1)"
  assume "ts = []"
  then have "searchTemplates E g s = (Inr [], s1)" using h by simp
  from run_trace_no_templates(2) [OF _ this] h
  show "generated (trace (snd (main E init (initial d)))) = []"
    by (simp add: search_events_read)
next
  fix i g s ts s1 s2
  assume h: "init = Inr i
         \<and> new_Genry \<lparr>serverId = args_ipcServer i, terminalId = args_terminalId i\<rparr>
              (init_packagePath i) (init_config i) (args_path i) (initial d) = (g, s)
         \<and> searchTemplates E g s = (Inr ts, s1)"
  assume c: "ts \<noteq> [] \<and> selectTemplate E ts s1 = (None, s2)"
  from run_trace_cancelled(2) [of i d g s E ts s1 s2] h c
  show "generated (trace (snd (main E init (initial d)))) = []"
    by (auto simp add: generated_append search_events_read)
next
  fix i g s ts s1 t s2
  assume h: "init = Inr i
         \<and> new_Genry \<lparr>serverId = args_ipcServer i, terminalId = args_terminalId i\<rparr>
              (init_packagePath i) (init_config i) (args_path i) (initial d) = (g, s)
         \<and> searchTemplates E g s = (Inr ts, s1)"
  assume c: "ts \<noteq> [] \<and> selectTemplate E ts s1 = (Some t, s2)"
  from run_trace_generate(2) [of i d g s E ts s1 t s2] h c
  show "generated (trace (snd (main E init (initial d)))) = [t]"
    by (auto simp add: generated_append search_events_read split: sum.splits)
qed



text \<open>
  C9, as amended. The \<open>end\<close> notification is emitted exactly when the search returned a
  non-empty sequence of templates and the \<open>generate\<close> call of the selected template, if
  the user selected one, did not fail. In particular, when the glob expansion matched
  files and every one of them contributes no template, \<open>found\<close> is the only notification
  of the run and the prompt is not shown.
\<close>

theorem end_emitted_iff:
  assumes "new_Genry \<lparr>serverId = args_ipcServer i, terminalId = args_terminalId i\<rparr>
             (init_packagePath i) (init_config i) (args_path i) (initial d) = (g, s)"
  shows "(''end'' \<in> set (emitted (trace (snd (main E (Inr i) (initial d)))))
            \<longleftrightarrow> (\<exists>ts s1. searchTemplates E g s = (Inr ts, s1) \<and> ts \<noteq> []
                   \<and> (\<forall>t s2. selectTemplate E ts s1 = (Some t, s2)
                          \<longrightarrow> generate t (generate_context g) (config g) = Inr ())))
       \<and> (\<forall>files. matched_files E g = Inr files \<and> files \<noteq> []
              \<and> (\<forall>f\<in>set files. spec_contribution (import_of E g f) = [])
            \<longrightarrow> emitted (trace (snd (main E (Inr i) (initial d)))) = [''found'']
              \<and> prompted (trace (snd (main E (Inr i) (initial d)))) = 0)"
proof (intro conjI allI impI)
  have no_end: "''end'' \<notin> set (emitted (search_events E g d))"
    by (simp add: search_events_read split: sum.splits)
  show "''end'' \<in> set (emitted (trace (snd (main E (Inr i) (initial d)))))
            \<longleftrightarrow> (\<exists>ts s1. searchTemplates E g s = (Inr ts, s1) \<and> ts \<noteq> []
                   \<and> (\<forall>t s2. selectTemplate E ts s1 = (Some t, s2)
                          \<longrightarrow> generate t (generate_context g) (config g) = Inr ()))"
  proof (cases "searchTemplates E g s")
    case (Pair r s1)
    show ?thesis
    proof (cases r)
      case (Inl e)
      then have "searchTemplates E g s = (Inl e, s1)" using Pair by simp
      from run_trace_search_fails(2) [OF assms this] this no_end
      show ?thesis by simp
    next
      case (Inr ts)
      then have srch: "searchTemplates E g s = (Inr ts, s1)" using Pair by simp
      show ?thesis
      proof (cases "ts = []")
        case True
        then have "searchTemplates E g s = (Inr [], s1)" using srch by simp
        from run_trace_no_templates(2) [OF assms this] this no_end
        show ?thesis by simp
      next
        case False
        obtain r2 s2 where sel: "selectTemplate E ts s1 = (r2, s2)"
          by (cases "selectTemplate E ts s1")
        show ?thesis
        proof (cases r2)
          case None
          then have sel': "selectTemplate E ts s1 = (None, s2)" using sel by simp
          from run_trace_cancelled(2) [OF assms srch False sel']
          have "''end'' \<in> set (emitted (trace (snd (main E (Inr i) (initial d)))))"
            by (auto simp add: emitted_append)
          then show ?thesis using srch False sel' by simp
        next
          case (Some t)
          then have sel': "selectTemplate E ts s1 = (Some t, s2)" using sel by simp
          from run_trace_generate(2) [OF assms srch False sel']
          have "''end'' \<in> set (emitted (trace (snd (main E (Inr i) (initial d)))))
                 \<longleftrightarrow> generate t (generate_context g) (config g) = Inr ()"
            using no_end by (auto simp add: emitted_append split: sum.splits)
          then show ?thesis using srch False sel' by simp
        qed
      qed
    qed
  qed
next
  fix files
  assume h: "matched_files E g = Inr files \<and> files \<noteq> []
              \<and> (\<forall>f\<in>set files. spec_contribution (import_of E g f) = [])"
  then have none: "spec_loader E g files = []"
    by (simp add: spec_loader_def)
  have em: "emitted (search_events E g d) = [''found'']"
    using h by (simp add: search_events_read)
  obtain s' where "searchTemplates E g s = loadTemplates E g files s'"
    using searchTemplates_found_load [of E g files s] h by blast
  then have "(\<exists>e. fst (searchTemplates E g s) = Inl e) \<or> fst (searchTemplates E g s) = Inr []"
    using loadTemplates_result_cases [of E g files s'] none by simp
  then have "trace (snd (main E (Inr i) (initial d))) = Register # search_events E g d"
  proof
    assume "\<exists>e. fst (searchTemplates E g s) = Inl e"
    then obtain e where "fst (searchTemplates E g s) = Inl e"
      by blast
    then have "searchTemplates E g s = (Inl e, snd (searchTemplates E g s))"
      by (rule pair_with_snd)
    then show ?thesis by (rule run_trace_search_fails(2) [OF assms])
  next
    assume "fst (searchTemplates E g s) = Inr []"
    then have "searchTemplates E g s = (Inr [], snd (searchTemplates E g s))"
      by (rule pair_with_snd)
    then show ?thesis by (rule run_trace_no_templates(2) [OF assms])
  qed
  then show "emitted (trace (snd (main E (Inr i) (initial d)))) = [''found'']"
    and "prompted (trace (snd (main E (Inr i) (initial d)))) = 0"
    by (simp_all add: em search_events_read(2))
qed


section \<open>Evaluating the example runs\<close>

lemma proj_of_init:
  "new_Genry \<lparr>serverId = args_ipcServer proj_init, terminalId = args_terminalId proj_init\<rparr>
      (init_packagePath proj_init) (init_config proj_init) (args_path proj_init) (initial d)
    = (proj, log Register (initial d))"
  by (simp add: new_Genry_def proj_def proj_init_def)

lemma example_matched: "matched_files (example_env files modules answer) g = Inr files"
  by (simp add: matched_files_def example_env_def)

lemma example_import:
  "import_of (example_env files modules answer) proj f = modules (''/proj/'' @ f)"
  by (simp add: import_of_def example_env_def proj_def)

lemma example_prompts: "prompts (example_env files modules answer) = answer"
  by (simp add: example_env_def)

lemma mixed_modules_eval:
  "mixed_modules ''/proj/two.genry.ts'' = Fulfils (Value (Many [tplA, tplB]))"
  "mixed_modules ''/proj/one.genry.ts'' = Fulfils (Value (Single tplBroken))"
  "mixed_modules ''/proj/null.genry.js'' = Fulfils Null"
  "mixed_modules ''/proj/none.genry.js'' = Fulfils Undefined"
  by (simp_all add: mixed_modules_def)

lemma scenario_modules_eval:
  "scenario_modules ''/proj/a.genry.ts'' = Fulfils (Value (Single tplA))"
  "scenario_modules ''/proj/b.genry.js'' = Rejects (Error ''b.genry.js throws'')"
  by (simp_all add: scenario_modules_def)

lemmas example_eval = example_matched example_import example_prompts mixed_modules_eval
  scenario_modules_eval searchTemplates_result file_promise_def concat_step_def

lemma broken_search: "fst (searchTemplates broken_env proj s) = Inr [tplBroken]"
  by (simp add: broken_env_def example_eval)

lemma picking_search: "fst (searchTemplates picking_env proj s) = Inr [tplA, tplB, tplBroken]"
  by (simp add: picking_env_def mixed_files_def example_eval)

lemma mixed_search: "fst (searchTemplates mixed_env proj s) = Inr [tplA, tplB, tplBroken]"
  by (simp add: mixed_env_def mixed_files_def example_eval)

lemma null_search: "fst (searchTemplates null_env proj s) = Inr []"
  by (simp add: null_env_def example_eval)

lemma scenario_search: "fst (searchTemplates scenario_env proj s) = Inl (Error ''b.genry.js throws'')"
  by (simp add: scenario_env_def example_eval)

lemma broken_select: "fst (selectTemplate broken_env [tplBroken] s) = Some tplBroken"
  by (simp add: selectTemplate_def broken_env_def example_prompts pick_first_def)

lemma picking_select: "fst (selectTemplate picking_env [tplA, tplB, tplBroken] s) = Some tplA"
  by (simp add: selectTemplate_def picking_env_def example_prompts pick_first_def)

lemma mixed_select: "fst (selectTemplate mixed_env ts s) = None"
  by (simp add: selectTemplate_def mixed_env_def example_prompts)

text \<open>C3 on a run whose only template fails in \<open>generate\<close>.\<close>

theorem generate_failure_propagates_witness:
  "fst (main broken_env (Inr proj_init) (initial ''/home/user'')) = Inl (Error ''generate failed'')
   \<and> generated (trace (snd (main broken_env (Inr proj_init) (initial ''/home/user'')))) = [tplBroken]
   \<and> ''end'' \<notin> set (emitted (trace (snd (main broken_env (Inr proj_init) (initial ''/home/user'')))))
   \<and> exit_status (fst (main broken_env (Inr proj_init) (initial ''/home/user''))) \<noteq> 0"
proof -
  let ?s = "log Register (initial ''/home/user'')"
  let ?s1 = "snd (searchTemplates broken_env proj ?s)"
  let ?s2 = "snd (selectTemplate broken_env [tplBroken] ?s1)"
  have h2: "searchTemplates broken_env proj ?s = (Inr [tplBroken], ?s1)"
    by (rule pair_with_snd) (rule broken_search)
  have h3: "[tplBroken] \<noteq> []" by simp
  have h4: "selectTemplate broken_env [tplBroken] ?s1 = (Some tplBroken, ?s2)"
    by (rule pair_with_snd) (rule broken_select)
  have h5: "generate tplBroken (generate_context proj) (config proj) = Inl (Error ''generate failed'')"
    by (simp add: tplBroken_def)
  note run = generate_failure_propagates [OF proj_of_init h2 h3 h4 h5]
  have "fst (main broken_env (Inr proj_init) (initial ''/home/user'')) = Inl (Error ''generate failed'')"
    using run [THEN conjunct2, THEN conjunct1] by simp
  with run show ?thesis by blast
qed


lemmas run_defs = main_def new_Genry_def start_def searchTemplates_def loadTemplates_def
  load_file_def selectTemplate_def generate_context_def log_def chdir_def Let_def initial_def
  matched_files_def import_of_def example_env_def proj_init_def concat_step_def pick_first_def

text \<open>
  C9 as stated fails: on the run in which the only template is selected and its
  \<open>generate\<close> fails, the search returned a non-empty sequence and yet \<open>end\<close> is not emitted.
\<close>

theorem end_iff_loaded_counterexample:
  "fst (searchTemplates broken_env proj (log Register (initial ''/home/user''))) = Inr [tplBroken]
   \<and> [tplBroken] \<noteq> []
   \<and> emitted (trace (snd (main broken_env (Inr proj_init) (initial ''/home/user'')))) = [''found'']
   \<and> ''end'' \<notin> set (emitted (trace (snd (main broken_env (Inr proj_init) (initial ''/home/user'')))))"
  by (simp add: broken_search) (simp add: run_defs broken_env_def mixed_modules_def tplBroken_def)

text \<open>C5 on a run in which no file matches.\<close>

theorem no_match_is_not_an_error_witness:
  "searchTemplates empty_env proj (log Register (initial ''/home/user''))
      = (Inr [], \<lparr>process_cwd = ''/home/user'', trace = [Register, SpinnerStart ''Loading templates'',
             SpinnerWarn ''Templates not found'', VscodeEmit ''notFound'']\<rparr>)
   \<and> imported (trace (snd (main empty_env (Inr proj_init) (initial ''/home/user'')))) = []
   \<and> prompted (trace (snd (main empty_env (Inr proj_init) (initial ''/home/user'')))) = 0
   \<and> fst (main empty_env (Inr proj_init) (initial ''/home/user'')) = Inr ()
   \<and> exit_status (fst (main empty_env (Inr proj_init) (initial ''/home/user''))) = 0"
proof -
  have h: "matched_files empty_env proj = Inr []"
    by (simp add: empty_env_def example_matched)
  note run = no_match_is_not_an_error [OF proj_of_init h]
  have "searchTemplates empty_env proj (log Register (initial ''/home/user''))
      = (Inr [], \<lparr>process_cwd = ''/home/user'', trace = [Register, SpinnerStart ''Loading templates'',
             SpinnerWarn ''Templates not found'', VscodeEmit ''notFound'']\<rparr>)"
    using run [THEN conjunct1] by (simp add: log_def initial_def)
  with run show ?thesis by blast
qed

text \<open>C7 on a run that loads three templates and has the user cancel the prompt.\<close>

theorem cancelled_selection_ends_normally_witness:
  "fst (main mixed_env (Inr proj_init) (initial ''/home/user'')) = Inr ()
   \<and> generated (trace (snd (main mixed_env (Inr proj_init) (initial ''/home/user'')))) = []
   \<and> emitted (trace (snd (main mixed_env (Inr proj_init) (initial ''/home/user'')))) = [''found'', ''end'']
   \<and> exit_status (fst (main mixed_env (Inr proj_init) (initial ''/home/user''))) = 0"
proof -
  let ?s = "log Register (initial ''/home/user'')"
  let ?s1 = "snd (searchTemplates mixed_env proj ?s)"
  let ?s2 = "snd (selectTemplate mixed_env [tplA, tplB, tplBroken] ?s1)"
  have h2: "searchTemplates mixed_env proj ?s = (Inr [tplA, tplB, tplBroken], ?s1)"
    by (rule pair_with_snd) (rule mixed_search)
  have h3: "[tplA, tplB, tplBroken] \<noteq> []" by simp
  have h4: "selectTemplate mixed_env [tplA, tplB, tplBroken] ?s1 = (None, ?s2)"
    by (rule pair_with_snd) (rule mixed_select)
  note run = cancelled_selection_ends_normally [OF proj_of_init h2 h3 h4]
  have "fst (main mixed_env (Inr proj_init) (initial ''/home/user'')) = Inr ()"
    using run [THEN conjunct1] by simp
  with run show ?thesis by blast
qed

text \<open>
  C8 as stated fails: the run reaches the search, the awaited glob call rejects, and
  \<open>searchTemplates\<close> is left before either notification; the run emits nothing.
\<close>

theorem found_or_notFound_glob_error_counterexample:
  "matched_files glob_error_env proj = Inl (Error ''glob failed'')
   \<and> trace (snd (main glob_error_env (Inr proj_init) (initial ''/home/user'')))
       = [Register, SpinnerStart ''Loading templates'']
   \<and> emitted (trace (snd (main glob_error_env (Inr proj_init) (initial ''/home/user'')))) = []
   \<and> ''found'' \<notin> set (emitted (trace (snd (main glob_error_env (Inr proj_init) (initial ''/home/user'')))))
   \<and> ''notFound'' \<notin> set (emitted (trace (snd (main glob_error_env (Inr proj_init) (initial ''/home/user'')))))"
  by (simp add: main_def new_Genry_def start_def searchTemplates_def log_def Let_def initial_def
        matched_files_def glob_error_env_def)

text \<open>The amended C8 on the scenario in which one of the two matched files fails to load.\<close>

theorem found_or_notFound_once_before_imports_witness:
  "\<exists>pre post. trace (snd (main scenario_env (Inr proj_init) (initial ''/home/user'')))
             = pre @ VscodeEmit ''found'' # post
           \<and> imported pre = []
           \<and> ''found'' \<notin> set (emitted pre) \<and> ''notFound'' \<notin> set (emitted pre)
           \<and> ''found'' \<notin> set (emitted post) \<and> ''notFound'' \<notin> set (emitted post)
           \<and> imported post = [''/proj/a.genry.ts'', ''/proj/b.genry.js'']"
proof -
  have h: "matched_files scenario_env proj = Inr [''a.genry.ts'', ''b.genry.js'']"
    by (simp add: scenario_env_def example_matched)
  have pj: "path_join scenario_env (packagePath proj) f = ''/proj/'' @ f" for f
    by (simp add: scenario_env_def example_env_def proj_def)
  from found_or_notFound_once_before_imports [OF proj_of_init h]
  show ?thesis by (simp add: pj)
qed

text \<open>
  C6 on three runs: the user selects the first of three templates; the user cancels; the
  matched files export no template.
\<close>

theorem generate_invoked_at_most_once_witness:
  "length (generated (trace (snd (main picking_env (Inr proj_init) (initial ''/home/user''))))) \<le> 1
   \<and> generated (trace (snd (main picking_env (Inr proj_init) (initial ''/home/user'')))) = [tplA]
   \<and> generated (trace (snd (main mixed_env (Inr proj_init) (initial ''/home/user'')))) = []
   \<and> generated (trace (snd (main null_env (Inr proj_init) (initial ''/home/user'')))) = []"
proof -
  let ?s = "log Register (initial ''/home/user'')"
  have p2: "searchTemplates picking_env proj ?s = (Inr [tplA, tplB, tplBroken], snd (searchTemplates picking_env proj ?s))"
    by (rule pair_with_snd) (rule picking_search)
  have p4: "selectTemplate picking_env [tplA, tplB, tplBroken] (snd (searchTemplates picking_env proj ?s))
      = (Some tplA, snd (selectTemplate picking_env [tplA, tplB, tplBroken] (snd (searchTemplates picking_env proj ?s))))"
    by (rule pair_with_snd) (rule picking_select)
  have m2: "searchTemplates mixed_env proj ?s = (Inr [tplA, tplB, tplBroken], snd (searchTemplates mixed_env proj ?s))"
    by (rule pair_with_snd) (rule mixed_search)
  have m4: "selectTemplate mixed_env [tplA, tplB, tplBroken] (snd (searchTemplates mixed_env proj ?s))
      = (None, snd (selectTemplate mixed_env [tplA, tplB, tplBroken] (snd (searchTemplates mixed_env proj ?s))))"
    by (rule pair_with_snd) (rule mixed_select)
  have n2: "searchTemplates null_env proj ?s = (Inr [], snd (searchTemplates null_env proj ?s))"
    by (rule pair_with_snd) (rule null_search)
  note p = generate_invoked_at_most_once [of picking_env "Inr proj_init" "''/home/user''"]
  note m = generate_invoked_at_most_once [of mixed_env "Inr proj_init" "''/home/user''"]
  note n = generate_invoked_at_most_once [of null_env "Inr proj_init" "''/home/user''"]
  have "length (generated (trace (snd (main picking_env (Inr proj_init) (initial ''/home/user''))))) \<le> 1"
    using p by blast
  moreover have "generated (trace (snd (main picking_env (Inr proj_init) (initial ''/home/user'')))) = [tplA]"
    using p proj_of_init [of "''/home/user''"] p2 p4 by blast
  moreover have "generated (trace (snd (main mixed_env (Inr proj_init) (initial ''/home/user'')))) = []"
    using m proj_of_init [of "''/home/user''"] m2 m4 by blast
  moreover have "generated (trace (snd (main null_env (Inr proj_init) (initial ''/home/user'')))) = []"
    using n proj_of_init [of "''/home/user''"] n2 by blast
  ultimately show ?thesis by blast
qed


text \<open>
  The amended C9 on a run in which the selected template is generated, and on a run whose
  matched files export no template.
\<close>

theorem end_emitted_iff_witness:
  "''end'' \<in> set (emitted (trace (snd (main picking_env (Inr proj_init) (initial ''/home/user'')))))
   \<and> emitted (trace (snd (main null_env (Inr proj_init) (initial ''/home/user'')))) = [''found'']
   \<and> prompted (trace (snd (main null_env (Inr proj_init) (initial ''/home/user'')))) = 0"
proof -
  let ?s = "log Register (initial ''/home/user'')"
  let ?s1 = "snd (searchTemplates picking_env proj ?s)"
  have p2: "searchTemplates picking_env proj ?s = (Inr [tplA, tplB, tplBroken], ?s1)"
    by (rule pair_with_snd) (rule picking_search)
  have p4: "generate t (generate_context proj) (config proj) = Inr ()"
    if "selectTemplate picking_env [tplA, tplB, tplBroken] ?s1 = (Some t, s2)" for t s2
  proof -
    have "fst (selectTemplate picking_env [tplA, tplB, tplBroken] ?s1) = Some t"
      using that by simp
    then have "t = tplA" by (simp add: picking_select)
    then show ?thesis by (simp add: tplA_def)
  qed
  have rhs: "\<exists>ts s1. searchTemplates picking_env proj ?s = (Inr ts, s1) \<and> ts \<noteq> []
                   \<and> (\<forall>t s2. selectTemplate picking_env ts s1 = (Some t, s2)
                          \<longrightarrow> generate t (generate_context proj) (config proj) = Inr ())"
    using p2 p4 by (intro exI [of _ "[tplA, tplB, tplBroken]"] exI [of _ ?s1]) simp
  have "''end'' \<in> set (emitted (trace (snd (main picking_env (Inr proj_init) (initial ''/home/user'')))))"
    using end_emitted_iff [OF proj_of_init, of picking_env "''/home/user''", THEN conjunct1] rhs by blast
  moreover
  have n1: "matched_files null_env proj = Inr [''null.genry.js'', ''none.genry.js'']"
    by (simp add: null_env_def example_matched)
  have n2: "\<forall>f\<in>set [''null.genry.js'', ''none.genry.js'']. spec_contribution (import_of null_env proj f) = []"
    by (simp add: null_env_def example_import mixed_modules_eval spec_contribution_def)
  have "emitted (trace (snd (main null_env (Inr proj_init) (initial ''/home/user'')))) = [''found'']
      \<and> prompted (trace (snd (main null_env (Inr proj_init) (initial ''/home/user'')))) = 0"
    using end_emitted_iff [OF proj_of_init, of null_env "''/home/user''", THEN conjunct2] n1 n2 by blast
  ultimately show ?thesis by blast
qed


end
